theory Spec2Isabelle
  imports Main
begin

section \<open>Python values the program handles\<close>

text \<open>
  The exceptions that can travel through \<open>main.py\<close>, each carrying the text that
  \<open>str(e)\<close> gives. \<open>OSError\<close> stands for the failures of \<open>open\<close> other than a
  missing file (permission denied, a directory, ...); \<open>Exception\<close> for the plain
  \<open>Exception\<close> raised by \<open>validate_config\<close> and for any other subclass of it.
  \<open>SystemExit\<close> derives from \<open>BaseException\<close> only: \<open>except Exception\<close> lets it pass.
\<close>

datatype exn =
    FileNotFoundError string
  | OSError string
  | ValueError string
  | ValidationError string
  | Exception string
  | SystemExit int

fun str_exn :: "exn \<Rightarrow> string" where
  "str_exn (FileNotFoundError m) = m"
| "str_exn (OSError m) = m"
| "str_exn (ValueError m) = m"
| "str_exn (ValidationError m) = m"
| "str_exn (Exception m) = m"
| "str_exn (SystemExit n) = []"

text \<open>\<open>s.endswith(suf)\<close>.\<close>

definition endswith :: "string \<Rightarrow> string \<Rightarrow> bool" where
  "endswith s suf \<longleftrightarrow> length suf \<le> length s \<and> drop (length s - length suf) s = suf"

text \<open>\<open>sep.join(xs)\<close>.\<close>

fun join :: "string \<Rightarrow> string list \<Rightarrow> string" where
  "join sep [] = []"
| "join sep [x] = x"
| "join sep (x # y # ys) = x @ sep @ join sep (y # ys)"

text \<open>\<open>str(n)\<close> of an integer: decimal digits, a minus sign when negative.\<close>

fun str_nat :: "nat \<Rightarrow> string" where
  "str_nat n =
     (if n < 10 then [''0123456789'' ! n]
      else str_nat (n div 10) @ [''0123456789'' ! (n mod 10)])"

definition str_int :: "int \<Rightarrow> string" where
  "str_int i = (if i < 0 then CHR ''-'' # str_nat (nat (- i)) else str_nat (nat i))"

section \<open>The file system and the parsers\<close>

text \<open>
  What \<open>open(path, 'r')\<close> does: it raises \<open>FileNotFoundError\<close> (\<open>Missing\<close>), it
  raises any other exception, with its text (\<open>Unopenable\<close>: permission denied, a
  directory, a component of the path that is not a directory, a name that is too long
  or holds a NUL byte), or it opens a readable file with its content.
\<close>

datatype file_state = Missing | Unopenable string | Readable string

text \<open>
  What \<open>yaml.safe_load\<close> and \<open>json.load\<close> do with a content: a document, the
  parser's own error (\<open>yaml.YAMLError\<close>, \<open>json.JSONDecodeError\<close>) with its text, or
  any other exception. The documents themselves are opaque to this program, which only
  hands them from the parser to the validator: they are a type parameter.
\<close>

datatype 'v parse_result = Document 'v | Malformed string | Crashed string

section \<open>Loading\<close>

text \<open>
  \<open>load_config\<close>, lines 39 to 57. The body of the \<open>with\<close> block first, with the
  exceptions it raises; then the two handlers of the outer \<open>try\<close>, which see every
  exception of the body, the \<open>ValueError\<close>s raised inside it included.
\<close>

definition load_config_body ::
  "(string \<Rightarrow> 'v parse_result) \<Rightarrow> (string \<Rightarrow> 'v parse_result) \<Rightarrow> string \<Rightarrow> string \<Rightarrow> exn + 'v"
where
  "load_config_body yaml_safe_load json_load config_file content =
     (if endswith config_file ''.yaml'' \<or> endswith config_file ''.yml'' then
        (case yaml_safe_load content of
           Document config_data \<Rightarrow> Inr config_data
         | Malformed e \<Rightarrow> Inl (ValueError (''Error loading YAML file: '' @ e))
         | Crashed e \<Rightarrow> Inl (Exception e))
      else if endswith config_file ''.json'' then
        (case json_load content of
           Document config_data \<Rightarrow> Inr config_data
         | Malformed e \<Rightarrow> Inl (ValueError (''Error loading JSON file: '' @ e))
         | Crashed e \<Rightarrow> Inl (Exception e))
      else Inl (ValueError ''Unsupported file format.  Must be YAML or JSON.''))"

definition load_config_handlers :: "string \<Rightarrow> exn \<Rightarrow> exn" where
  "load_config_handlers config_file e =
     (case e of
        FileNotFoundError m \<Rightarrow> FileNotFoundError (''Configuration file not found: '' @ config_file)
      | SystemExit n \<Rightarrow> SystemExit n
      | _ \<Rightarrow> ValueError (''Error loading configuration file: '' @ str_exn e))"

definition open_read :: "(string \<Rightarrow> file_state) \<Rightarrow> string \<Rightarrow> exn + string" where
  "open_read fs file =
     (case fs file of
        Missing \<Rightarrow> Inl (FileNotFoundError (''[Errno 2] No such file or directory: '' @ file))
      | Unopenable m \<Rightarrow> Inl (OSError m)
      | Readable content \<Rightarrow> Inr content)"

definition load_config ::
  "(string \<Rightarrow> file_state) \<Rightarrow> (string \<Rightarrow> 'v parse_result) \<Rightarrow> (string \<Rightarrow> 'v parse_result) \<Rightarrow>
   string \<Rightarrow> exn + 'v"
where
  "load_config fs yaml_safe_load json_load config_file =
     (case (case open_read fs config_file of
              Inl e \<Rightarrow> Inl e
            | Inr content \<Rightarrow> load_config_body yaml_safe_load json_load config_file content) of
        Inl e \<Rightarrow> Inl (load_config_handlers config_file e)
      | Inr config_data \<Rightarrow> Inr config_data)"

text \<open>\<open>load_schema\<close>, lines 74 to 84: always the JSON parser, whatever the file's name.\<close>

definition load_schema_body :: "(string \<Rightarrow> 'v parse_result) \<Rightarrow> string \<Rightarrow> exn + 'v" where
  "load_schema_body json_load content =
     (case json_load content of
        Document schema_data \<Rightarrow> Inr schema_data
      | Malformed e \<Rightarrow> Inl (ValueError (''Error loading JSON schema: '' @ e))
      | Crashed e \<Rightarrow> Inl (Exception e))"

definition load_schema_handlers :: "string \<Rightarrow> exn \<Rightarrow> exn" where
  "load_schema_handlers schema_file e =
     (case e of
        FileNotFoundError m \<Rightarrow> FileNotFoundError (''Schema file not found: '' @ schema_file)
      | SystemExit n \<Rightarrow> SystemExit n
      | _ \<Rightarrow> ValueError (''Error loading schema file: '' @ str_exn e))"

definition load_schema ::
  "(string \<Rightarrow> file_state) \<Rightarrow> (string \<Rightarrow> 'v parse_result) \<Rightarrow> string \<Rightarrow> exn + 'v"
where
  "load_schema fs json_load schema_file =
     (case (case open_read fs schema_file of
              Inl e \<Rightarrow> Inl e
            | Inr content \<Rightarrow> load_schema_body json_load content) of
        Inl e \<Rightarrow> Inl (load_schema_handlers schema_file e)
      | Inr schema_data \<Rightarrow> Inr schema_data)"

section \<open>Validation\<close>

text \<open>
  \<open>jsonschema.validate\<close> is the library's: it is a parameter of the model, given by
  what a call can do. It returns, or raises one \<open>ValidationError\<close> (with its
  \<open>message\<close> and its \<open>path\<close>, a sequence of property names and array indices), or
  raises \<open>SchemaError\<close>, or raises something else.
\<close>

datatype path_elem = Key string | Index int

fun str_elem :: "path_elem \<Rightarrow> string" where
  "str_elem (Key k) = k"
| "str_elem (Index i) = str_int i"

record validation_error =
  e_message :: string
  e_path :: "path_elem list"

datatype js_outcome =
    Passes
  | RaisesValidationError validation_error
  | RaisesSchemaError string
  | RaisesOther string

text \<open>The dictionary \<open>error_info\<close> of lines 108 to 111.\<close>

record error_info =
  message :: string
  path :: string

text \<open>\<open>validate_config\<close>, lines 101 to 118.\<close>

definition validate_config ::
  "('v \<Rightarrow> 'v \<Rightarrow> js_outcome) \<Rightarrow> 'v \<Rightarrow> 'v \<Rightarrow> exn + error_info list"
where
  "validate_config jsonschema_validate config_data schema_data =
     (case jsonschema_validate config_data schema_data of
        Passes \<Rightarrow> Inr []
      | RaisesValidationError e \<Rightarrow>
          (let errors = [];
               error_path = join ''.'' (map str_elem (e_path e));
               error_info = \<lparr>message = e_message e, path = error_path\<rparr>
           in Inr (errors @ [error_info]))
      | RaisesSchemaError e \<Rightarrow> Inl (ValueError (''Invalid schema: '' @ e))
      | RaisesOther e \<Rightarrow> Inl (Exception (''Unexpected validation error: '' @ e)))"

section \<open>The report\<close>

text \<open>\<open>generate_report\<close>, lines 132 to 139; the \<open>for\<close> loop is the fold.\<close>

definition report_step :: "string \<Rightarrow> error_info \<Rightarrow> string" where
  "report_step report error =
     (report @ (''  - Path: '' @ path error @ ''\<newline>''))
       @ (''    Message: '' @ message error @ ''\<newline>'')"

definition generate_report :: "error_info list \<Rightarrow> string" where
  "generate_report validation_errors =
     (if validation_errors = [] then ''Configuration validation successful. No issues found.''
      else foldl report_step ''Configuration validation failed:\<newline>'' validation_errors)"

section \<open>The command line and the run\<close>

datatype level = DEBUG | INFO | WARNING | ERROR | CRITICAL

record args =
  config_file :: string
  schema_file :: string
  log_level :: level
  output_file :: "string option"

text \<open>
  \<open>setup_argparse\<close> returns the arguments, or \<open>parse_args\<close> ends the process itself
  by \<open>sys.exit\<close> (a usage error, \<open>--help\<close>).
\<close>

datatype argparse_result = Parsed args | Exited int

text \<open>
  All that a run depends on: the outcome of argument parsing, the files, the two
  parsers, the validator, and what writing a report to a file does (\<open>None\<close> when it
  succeeds, the text of the exception when it fails).
\<close>

record 'v env =
  setup_argparse :: argparse_result
  fs :: "string \<Rightarrow> file_state"
  yaml_safe_load :: "string \<Rightarrow> 'v parse_result"
  json_load :: "string \<Rightarrow> 'v parse_result"
  jsonschema_validate :: "'v \<Rightarrow> 'v \<Rightarrow> js_outcome"
  write_file :: "string \<Rightarrow> string \<Rightarrow> string option"

text \<open>
  What a run leaves behind: the calls to the logger in order (each with its level; the
  threshold that \<open>setLevel\<close> installs is the logging library's business), the lines
  printed, and the reports written to files.
\<close>

record world =
  log :: "(level \<times> string) list"
  stdout :: "string list"
  files :: "(string \<times> string) list"

definition logging_info :: "string \<Rightarrow> world \<Rightarrow> world" where
  "logging_info m w = w\<lparr>log := log w @ [(INFO, m)]\<rparr>"

definition logging_error :: "string \<Rightarrow> world \<Rightarrow> world" where
  "logging_error m w = w\<lparr>log := log w @ [(ERROR, m)]\<rparr>"

definition print :: "string \<Rightarrow> world \<Rightarrow> world" where
  "print s w = w\<lparr>stdout := stdout w @ [s]\<rparr>"

text \<open>Lines 164 to 172. \<open>if args.output_file\<close> is false for \<open>None\<close> and for the empty string.\<close>

definition emit_report :: "'v env \<Rightarrow> args \<Rightarrow> string \<Rightarrow> world \<Rightarrow> world" where
  "emit_report env a report w =
     (case output_file a of
        None \<Rightarrow> print report w
      | Some f \<Rightarrow>
          if f = [] then print report w
          else (case write_file env f report of
                  None \<Rightarrow> logging_info (''Report saved to: '' @ f) (w\<lparr>files := files w @ [(f, report)]\<rparr>)
                | Some e \<Rightarrow> logging_error (''Error writing report to file: '' @ e) w))"

text \<open>
  The \<open>try\<close> block of \<open>main\<close>, lines 146 to 177: the exception that leaves it, if
  any, and the world. \<open>sys.exit(1)\<close> on line 175 raises \<open>SystemExit\<close> inside the block.
\<close>

definition main_body :: "'v env \<Rightarrow> world \<Rightarrow> (exn + unit) \<times> world" where
  "main_body env w0 =
     (case setup_argparse env of
        Exited n \<Rightarrow> (Inl (SystemExit n), w0)
      | Parsed a \<Rightarrow>
          (let w1 = logging_info ''Starting chv-ServiceAccountPrivilegeChecker...'' w0 in
           case load_config (fs env) (yaml_safe_load env) (json_load env) (config_file a) of
             Inl e \<Rightarrow> (Inl e, w1)
           | Inr config_data \<Rightarrow>
               (let w2 = logging_info (''Configuration file loaded: '' @ config_file a) w1 in
                case load_schema (fs env) (json_load env) (schema_file a) of
                  Inl e \<Rightarrow> (Inl e, w2)
                | Inr schema_data \<Rightarrow>
                    (let w3 = logging_info (''Schema file loaded: '' @ schema_file a) w2 in
                     case validate_config (jsonschema_validate env) config_data schema_data of
                       Inl e \<Rightarrow> (Inl e, w3)
                     | Inr validation_errors \<Rightarrow>
                         (let w4 = logging_info ''Configuration validation completed.'' w3;
                              report = generate_report validation_errors;
                              w5 = emit_report env a report w4
                          in if validation_errors \<noteq> [] then (Inl (SystemExit 1), w5)
                             else (Inr (),
                                   logging_info
                                     ''chv-ServiceAccountPrivilegeChecker completed successfully.''
                                     w5))))))"

text \<open>
  The \<open>except\<close> clauses of lines 180 to 191, in their order, each ending in
  \<open>sys.exit(1)\<close>; a \<open>SystemExit\<close> matches none of them and ends the process with its
  own code.
\<close>

definition main_handlers :: "exn \<Rightarrow> world \<Rightarrow> int \<times> world" where
  "main_handlers e w =
     (case e of
        FileNotFoundError m \<Rightarrow> (1, logging_error (str_exn e) w)
      | ValueError m \<Rightarrow> (1, logging_error (str_exn e) w)
      | ValidationError m \<Rightarrow> (1, logging_error (''Schema validation error: '' @ str_exn e) w)
      | SystemExit n \<Rightarrow> (n, w)
      | _ \<Rightarrow> (1, logging_error (''An unexpected error occurred: '' @ str_exn e) w))"

definition start :: world where
  "start = \<lparr>log = [], stdout = [], files = []\<rparr>"

text \<open>\<open>main\<close>: the exit code of the process and the world it leaves.\<close>

definition main :: "'v env \<Rightarrow> int \<times> world" where
  "main env =
     (case main_body env start of
        (Inl e, w) \<Rightarrow> main_handlers e w
      | (Inr u, w) \<Rightarrow> (0, w))"

definition exit_code :: "'v env \<Rightarrow> int" where
  "exit_code env = fst (main env)"

section \<open>Reading a report\<close>

text \<open>
  The two lines that the loop of \<open>generate_report\<close> adds for one error, and the number
  of places of a text at which a pattern starts (what \<open>text.count(pattern)\<close> gives for
  a pattern that cannot overlap itself).
\<close>

definition report_block :: "error_info \<Rightarrow> string" where
  "report_block error =
     ''  - Path: '' @ path error @ ''\<newline>'' @ ''    Message: '' @ message error @ ''\<newline>''"

fun count_occ :: "string \<Rightarrow> string \<Rightarrow> nat" where
  "count_occ p [] = 0"
| "count_occ p (c # cs) = (if take (length p) (c # cs) = p then 1 else 0) + count_occ p cs"

section \<open>Concrete runs\<close>

text \<open>
  Command lines, file systems, library behaviours and environments at which the
  results below are evaluated. The documents here are their own texts.
\<close>

definition example_args :: args where
  "example_args = \<lparr>config_file = ''config.yaml'', schema_file = ''schema.json'',
                    log_level = INFO, output_file = None\<rparr>"

definition toml_args :: args where
  "toml_args = example_args\<lparr>config_file := ''accounts.toml''\<rparr>"

definition report_args :: args where
  "report_args = example_args\<lparr>output_file := Some ''report.txt''\<rparr>"

definition all_readable :: "string \<Rightarrow> file_state" where
  "all_readable p = Readable ''{}''"




definition accepting :: "string \<Rightarrow> string \<Rightarrow> js_outcome" where
  "accepting config_data schema_data = Passes"

definition schema_rejecting :: "string \<Rightarrow> string \<Rightarrow> js_outcome" where
  "schema_rejecting config_data schema_data =
     RaisesSchemaError '''bogus' is not valid under any of the given schemas''"

definition scalar_schema_crashing :: "string \<Rightarrow> string \<Rightarrow> js_outcome" where
  "scalar_schema_crashing config_data schema_data =
     (if schema_data = ''null'' then RaisesOther ''argument of type 'NoneType' is not iterable''
      else if schema_data = ''7'' then RaisesOther ''argument of type 'int' is not iterable''
      else Passes)"

definition root_rejecting :: "string \<Rightarrow> string \<Rightarrow> js_outcome" where
  "root_rejecting config_data schema_data =
     RaisesValidationError
       \<lparr>e_message = '''service_accounts' is a required property'', e_path = []\<rparr>"

definition element_rejecting :: "string \<Rightarrow> string \<Rightarrow> js_outcome" where
  "element_rejecting config_data schema_data =
     RaisesValidationError
       \<lparr>e_message = '''permissions' is a required property'',
        e_path = [Key ''service_accounts'', Index 0]\<rparr>"

definition writable :: "string \<Rightarrow> string \<Rightarrow> string option" where
  "writable f report = None"

definition read_only :: "string \<Rightarrow> string \<Rightarrow> string option" where
  "read_only f report = Some (''[Errno 30] Read-only file system: '' @ f)"

definition example_env :: "string env" where
  "example_env = \<lparr>setup_argparse = Parsed example_args, fs = all_readable,
                   yaml_safe_load = Document, json_load = Document,
                   jsonschema_validate = accepting, write_file = writable\<rparr>"

definition toml_env :: "string env" where
  "toml_env = example_env\<lparr>setup_argparse := Parsed toml_args\<rparr>"

definition read_only_env :: "string env" where
  "read_only_env = example_env\<lparr>setup_argparse := Parsed report_args, write_file := read_only\<rparr>"


definition two_errors :: "error_info list" where
  "two_errors =
     [\<lparr>message = '''permissions' is a required property'', path = ''service_accounts.0''\<rparr>,
      \<lparr>message = ''[1, 1] has non-unique elements'', path = ''service_accounts.1.permissions''\<rparr>]"

definition path_named_Path :: "error_info list" where
  "path_named_Path = [\<lparr>message = ''[1, 1] has non-unique elements'', path = ''Path:''\<rparr>]"

section \<open>Facts about the helpers\<close>

lemma endswith_iff: "endswith s suf \<longleftrightarrow> (\<exists>p. s = p @ suf)"
proof
  assume "endswith s suf"
  then have "s = take (length s - length suf) s @ suf"
    by (metis append_take_drop_id endswith_def)
  then show "\<exists>p. s = p @ suf" ..
next
  assume "\<exists>p. s = p @ suf"
  then show "endswith s suf" by (auto simp: endswith_def)
qed

lemma foldl_report_step: "foldl report_step acc errs = acc @ concat (map report_block errs)"
  by (induction errs arbitrary: acc) (simp_all add: report_step_def report_block_def)

lemma generate_report_blocks:
  "errs \<noteq> [] \<Longrightarrow>
   generate_report errs = ''Configuration validation failed:\<newline>'' @ concat (map report_block errs)"
  by (simp add: generate_report_def foldl_report_step)

text \<open>
  A text without the pattern, followed by a character that the pattern does not have,
  adds no occurrence: none lies inside the text, and none can run across its end.
\<close>

lemma count_occ_skip:
  "count_occ p v = 0 \<Longrightarrow> c \<notin> set p \<Longrightarrow> count_occ p (v @ c # r) = count_occ p (c # r)"
proof (induction v)
  case Nil
  then show ?case by simp
next
  case (Cons a v)
  from Cons.prems have no: "take (length p) (a # v) \<noteq> p" and rest: "count_occ p v = 0"
    by (auto split: if_splits)
  have "take (length p) (a # v @ c # r) \<noteq> p"
  proof
    assume eq: "take (length p) (a # v @ c # r) = p"
    show False
    proof (cases "length p \<le> length (a # v)")
      case True
      then have "take (length p) (a # v @ c # r) = take (length p) (a # v)"
        by (metis append_Cons take_append diff_is_0_eq take_0 append_Nil2)
      with eq no show False by simp
    next
      case False
      then have short: "length (a # v) < length p" by simp
      then have "p ! length (a # v) = c"
        using eq by (metis append_Cons nth_append_length nth_take)
      moreover have "p ! length (a # v) \<in> set p"
        using short by (rule nth_mem)
      ultimately show False using Cons.prems(2) by simp
    qed
  qed
  then show ?case using Cons.IH rest Cons.prems(2) by simp
qed

lemma count_occ_block:
  assumes "count_occ ''Path:'' (path e) = 0" and "count_occ ''Path:'' (message e) = 0"
  shows "count_occ ''Path:'' (report_block e @ rest) = Suc (count_occ ''Path:'' rest)"
proof -
  have nl: "CHR 0x0A \<notin> set ''Path:''" by simp
  have 1: "count_occ ''Path:'' (report_block e @ rest)
      = Suc (count_occ ''Path:'' (path e @ CHR 0x0A # (''    Message: '' @ message e @ CHR 0x0A # rest)))"
    by (simp add: report_block_def)
  have 2: "count_occ ''Path:'' (path e @ CHR 0x0A # (''    Message: '' @ message e @ CHR 0x0A # rest))
      = count_occ ''Path:'' (CHR 0x0A # (''    Message: '' @ message e @ CHR 0x0A # rest))"
    by (rule count_occ_skip [OF assms(1) nl])
  have 3: "count_occ ''Path:'' (CHR 0x0A # (''    Message: '' @ message e @ CHR 0x0A # rest))
      = count_occ ''Path:'' (message e @ CHR 0x0A # rest)"
    by simp
  have 4: "count_occ ''Path:'' (message e @ CHR 0x0A # rest) = count_occ ''Path:'' (CHR 0x0A # rest)"
    by (rule count_occ_skip [OF assms(2) nl])
  have 5: "count_occ ''Path:'' (CHR 0x0A # rest) = count_occ ''Path:'' rest"
    by simp
  show ?thesis using 1 2 3 4 5 by simp
qed

lemma count_occ_blocks:
  "\<forall>e\<in>set errs. count_occ ''Path:'' (path e) = 0 \<and> count_occ ''Path:'' (message e) = 0 \<Longrightarrow>
   count_occ ''Path:'' (concat (map report_block errs)) = length errs"
proof (induction errs)
  case Nil
  then show ?case by simp
next
  case (Cons e errs)
  then show ?case using count_occ_block [of e "concat (map report_block errs)"] by simp
qed

lemma count_occ_header:
  "count_occ ''Path:'' (''Configuration validation failed:\<newline>'' @ rest) = count_occ ''Path:'' rest"
  by simp

lemma count_occ_success:
  "count_occ ''Path:'' ''Configuration validation successful. No issues found.'' = 0"
  by simp

section \<open>Facts about the stages\<close>

lemma load_config_exn:
  "load_config fs0 y j f = Inl e \<Longrightarrow> (\<exists>m. e = FileNotFoundError m) \<or> (\<exists>m. e = ValueError m)"
  by (auto simp: load_config_def open_read_def load_config_body_def load_config_handlers_def
      split: file_state.splits parse_result.splits if_splits sum.splits exn.splits)

lemma load_schema_exn:
  "load_schema fs0 j f = Inl e \<Longrightarrow> (\<exists>m. e = FileNotFoundError m) \<or> (\<exists>m. e = ValueError m)"
  by (auto simp: load_schema_def open_read_def load_schema_body_def load_schema_handlers_def
      split: file_state.splits parse_result.splits if_splits sum.splits exn.splits)

lemma validate_config_exn:
  "validate_config jv c s = Inl e \<Longrightarrow> (\<exists>m. e = ValueError m) \<or> (\<exists>m. e = Exception m)"
  by (auto simp: validate_config_def split: js_outcome.splits)

text \<open>
  Whatever the library does, \<open>validate_config\<close> returns at most one error, and when the
  library raises a \<open>ValidationError\<close> it returns that one, its path joined with dots.
\<close>

lemma validate_config_at_most_one:
  "validate_config jv c s = Inr errs \<Longrightarrow> length errs \<le> 1"
  by (auto simp: validate_config_def split: js_outcome.splits)

lemma validate_config_rejected:
  "jv c s = RaisesValidationError e \<Longrightarrow>
   validate_config jv c s = Inr [\<lparr>message = e_message e, path = join ''.'' (map str_elem (e_path e))\<rparr>]"
  by (simp add: validate_config_def)

lemma validate_config_element_path:
  "validate_config element_rejecting c s =
     Inr [\<lparr>message = '''permissions' is a required property'', path = ''service_accounts.0''\<rparr>]"
  by (simp add: validate_config_def element_rejecting_def str_int_def)

text \<open>Once the command line is parsed, the exit code is a function of the three stages.\<close>

lemma exit_code_parsed:
  assumes "setup_argparse env = Parsed a"
  shows "exit_code env =
     (case load_config (fs env) (yaml_safe_load env) (json_load env) (config_file a) of
        Inl e \<Rightarrow> 1
      | Inr c \<Rightarrow>
         (case load_schema (fs env) (json_load env) (schema_file a) of
            Inl e \<Rightarrow> 1
          | Inr s \<Rightarrow>
             (case validate_config (jsonschema_validate env) c s of
                Inl e \<Rightarrow> 1
              | Inr errs \<Rightarrow> if errs = [] then 0 else 1)))"
  using assms
  by (auto simp: exit_code_def main_def main_body_def main_handlers_def Let_def
      split: sum.splits dest!: load_config_exn load_schema_exn validate_config_exn)

lemma exit_code_exited: "setup_argparse env = Exited n \<Longrightarrow> exit_code env = n"
  by (simp add: exit_code_def main_def main_body_def main_handlers_def)

lemma exit_code_write_file:
  "exit_code (env\<lparr>write_file := other\<rparr>) = exit_code env"
proof (cases "setup_argparse env")
  case (Parsed a)
  then have "setup_argparse (env\<lparr>write_file := other\<rparr>) = Parsed a" by simp
  from exit_code_parsed [OF this] exit_code_parsed [OF Parsed] show ?thesis
    by (simp cong: sum.case_cong)
next
  case (Exited n)
  then show ?thesis by (simp add: exit_code_exited)
qed

lemma main_load_failure:
  assumes "setup_argparse env = Parsed a"
    and "load_config (fs env) (yaml_safe_load env) (json_load env) (config_file a) = Inl (ValueError m)"
  shows "main env =
           (1, \<lparr>log = [(INFO, ''Starting chv-ServiceAccountPrivilegeChecker...''), (ERROR, m)],
                stdout = [], files = []\<rparr>)"
  using assms
  by (simp add: main_def main_body_def main_handlers_def start_def logging_info_def logging_error_def)

section \<open>The report\<close>

text \<open>
  Claim C2, as the code has it. \<open>generate_report\<close> of the empty list is exactly the
  success message; of a non-empty list it is the header followed, for each error in
  order, by its \<open>Path\<close> line and then its \<open>Message\<close> line. The report of N errors
  holds exactly N occurrences of \<open>Path:\<close> whenever no path and no message holds that
  text itself: the paths and messages are copied into the report as they are.
\<close>

theorem generate_report_format:
  "generate_report [] = ''Configuration validation successful. No issues found.'' \<and>
   (errs \<noteq> [] \<longrightarrow>
      generate_report errs =
        ''Configuration validation failed:\<newline>'' @ concat (map report_block errs)) \<and>
   ((\<forall>e\<in>set errs. count_occ ''Path:'' (path e) = 0 \<and> count_occ ''Path:'' (message e) = 0) \<longrightarrow>
      count_occ ''Path:'' (generate_report errs) = length errs)"
proof (intro conjI impI)
  show "generate_report [] = ''Configuration validation successful. No issues found.''"
    by (simp add: generate_report_def)
next
  assume "errs \<noteq> []"
  then show "generate_report errs =
      ''Configuration validation failed:\<newline>'' @ concat (map report_block errs)"
    by (rule generate_report_blocks)
next
  assume h: "\<forall>e\<in>set errs. count_occ ''Path:'' (path e) = 0 \<and> count_occ ''Path:'' (message e) = 0"
  show "count_occ ''Path:'' (generate_report errs) = length errs"
  proof (cases "errs = []")
    case True
    then show ?thesis using count_occ_success by (simp add: generate_report_def)
  next
    case False
    then have "generate_report errs =
        ''Configuration validation failed:\<newline>'' @ concat (map report_block errs)"
      by (rule generate_report_blocks)
    moreover have "count_occ ''Path:''
        (''Configuration validation failed:\<newline>'' @ concat (map report_block errs)) = length errs"
      using count_occ_blocks [OF h] by (simp only: count_occ_header)
    ultimately show ?thesis by (simp only:)
  qed
qed

text \<open>The report of two errors of the example schema.\<close>

theorem generate_report_format_witness:
  "generate_report two_errors =
     ''Configuration validation failed:\<newline>'' @
     ''  - Path: service_accounts.0\<newline>'' @
     ''    Message: 'permissions' is a required property\<newline>'' @
     ''  - Path: service_accounts.1.permissions\<newline>'' @
     ''    Message: [1, 1] has non-unique elements\<newline>'' \<and>
   count_occ ''Path:'' (generate_report two_errors) = 2"
  using generate_report_format [of two_errors]
  by (simp add: two_errors_def report_block_def)

text \<open>
  The count as the claim states it fails for an error at a property named \<open>Path:\<close>:
  one error, two occurrences.
\<close>

theorem generate_report_count_counterexample:
  "length path_named_Path = 1 \<and> count_occ ''Path:'' (generate_report path_named_Path) = 2"
  by (simp add: path_named_Path_def generate_report_def report_step_def)

section \<open>Loading\<close>

text \<open>
  Claim C5. A readable file whose name ends in none of \<open>.yaml\<close>, \<open>.yml\<close>, \<open>.json\<close>
  makes \<open>load_config\<close> raise the unsupported-format \<open>ValueError\<close>, whatever the
  content and the parsers; a run on it logs that error and exits with 1 without
  printing or writing a report, whatever the validator would do.
\<close>

theorem load_config_unsupported_format:
  assumes "fs env f = Readable content"
    and "\<not> endswith f ''.yaml''" and "\<not> endswith f ''.yml''" and "\<not> endswith f ''.json''"
  shows "load_config (fs env) (yaml_safe_load env) (json_load env) f =
           Inl (ValueError (''Error loading configuration file: '' @
                            ''Unsupported file format.  Must be YAML or JSON.'')) \<and>
         (setup_argparse env = Parsed a \<and> config_file a = f \<longrightarrow>
            main env =
              (1, \<lparr>log = [(INFO, ''Starting chv-ServiceAccountPrivilegeChecker...''),
                          (ERROR, ''Error loading configuration file: '' @
                                  ''Unsupported file format.  Must be YAML or JSON.'')],
                   stdout = [], files = []\<rparr>))"
proof -
  have l: "load_config (fs env) (yaml_safe_load env) (json_load env) f =
      Inl (ValueError (''Error loading configuration file: '' @
                       ''Unsupported file format.  Must be YAML or JSON.''))"
    using assms
    by (simp add: load_config_def open_read_def load_config_body_def load_config_handlers_def)
  show ?thesis
  proof (intro conjI impI)
    show "load_config (fs env) (yaml_safe_load env) (json_load env) f =
      Inl (ValueError (''Error loading configuration file: '' @
                       ''Unsupported file format.  Must be YAML or JSON.''))"
      by (rule l)
  next
    assume "setup_argparse env = Parsed a \<and> config_file a = f"
    then show "main env =
              (1, \<lparr>log = [(INFO, ''Starting chv-ServiceAccountPrivilegeChecker...''),
                          (ERROR, ''Error loading configuration file: '' @
                                  ''Unsupported file format.  Must be YAML or JSON.'')],
                   stdout = [], files = []\<rparr>)"
      using l main_load_failure [of env a] by simp
  qed
qed

theorem load_config_unsupported_format_witness:
  "load_config (fs toml_env) (yaml_safe_load toml_env) (json_load toml_env) ''accounts.toml'' =
     Inl (ValueError ''Error loading configuration file: Unsupported file format.  Must be YAML or JSON.'') \<and>
   main toml_env =
     (1, \<lparr>log = [(INFO, ''Starting chv-ServiceAccountPrivilegeChecker...''),
                 (ERROR, ''Error loading configuration file: Unsupported file format.  Must be YAML or JSON.'')],
          stdout = [], files = []\<rparr>)"
  using load_config_unsupported_format [of toml_env "''accounts.toml''" "''{}''" toml_args]
  by (simp add: toml_env_def toml_args_def example_env_def example_args_def all_readable_def
      endswith_def)




section \<open>Validation\<close>

text \<open>
  Whatever the library is, \<open>validate_config\<close> returns the empty list exactly when the
  call of \<open>jsonschema.validate\<close> returns without raising.
\<close>

lemma validate_config_empty_iff:
  "validate_config jv c s = Inr [] \<longleftrightarrow> jv c s = Passes"
  by (auto simp: validate_config_def split: js_outcome.splits)

text \<open>
  Claim C7, as the code has it. When \<open>jsonschema.validate\<close> raises \<open>SchemaError\<close>,
  \<open>validate_config\<close> raises the \<open>ValueError\<close> whose text starts with
  \<open>Invalid schema: \<close> and returns no list of errors at all; when the library raises
  any other exception, \<open>validate_config\<close> raises the plain \<open>Exception\<close> whose text
  starts with \<open>Unexpected validation error: \<close>; and \<open>validate_config\<close> raises a
  \<open>ValueError\<close> in no other case.
\<close>

theorem validate_config_invalid_schema:
  "(jv c s = RaisesSchemaError m \<longrightarrow>
      validate_config jv c s = Inl (ValueError (''Invalid schema: '' @ m)) \<and>
      (\<forall>errs. validate_config jv c s \<noteq> Inr errs)) \<and>
   (jv c s = RaisesOther m \<longrightarrow>
      validate_config jv c s = Inl (Exception (''Unexpected validation error: '' @ m))) \<and>
   ((\<exists>t. validate_config jv c s = Inl (ValueError t)) \<longleftrightarrow> (\<exists>t. jv c s = RaisesSchemaError t))"
  by (auto simp: validate_config_def split: js_outcome.splits)

text \<open>A schema that the library rejects, and a schema file that holds the number 7.\<close>

theorem validate_config_invalid_schema_witness:
  "validate_config schema_rejecting ''{}'' ''{}'' =
     Inl (ValueError ''Invalid schema: 'bogus' is not valid under any of the given schemas'') \<and>
   (\<forall>errs. validate_config schema_rejecting ''{}'' ''{}'' \<noteq> Inr errs) \<and>
   validate_config scalar_schema_crashing ''{}'' ''7'' =
     Inl (Exception ''Unexpected validation error: argument of type 'int' is not iterable'')"
  using
    validate_config_invalid_schema
      [of schema_rejecting "''{}''" "''{}''" "'''bogus' is not valid under any of the given schemas''"]
    validate_config_invalid_schema
      [of scalar_schema_crashing "''{}''" "''7''" "''argument of type 'int' is not iterable''"]
  by (simp add: schema_rejecting_def scalar_schema_crashing_def)

text \<open>
  A schema file that holds \<open>null\<close> is no valid schema, yet the library raises
  \<open>TypeError\<close> on it, not \<open>SchemaError\<close>: the failure is the unexpected one.
\<close>

theorem validate_config_null_schema_counterexample:
  "validate_config scalar_schema_crashing ''{}'' ''null'' =
     Inl (Exception ''Unexpected validation error: argument of type 'NoneType' is not iterable'')"
  by (simp add: validate_config_def scalar_schema_crashing_def)

text \<open>
  Claim C9. When the error that the library raises has the empty path (the violation is
  at the root of the document), the error that \<open>validate_config\<close> returns has the empty
  string as its path, and the report has a \<open>Path: \<close> line with nothing after it.
\<close>

theorem validate_config_root_path:
  "jv c s = RaisesValidationError e \<Longrightarrow> e_path e = [] \<Longrightarrow>
   validate_config jv c s = Inr [\<lparr>message = e_message e, path = []\<rparr>] \<and>
   generate_report [\<lparr>message = e_message e, path = []\<rparr>] =
     ''Configuration validation failed:\<newline>'' @
     ''  - Path: \<newline>'' @
     ''    Message: '' @ e_message e @ ''\<newline>''"
  by (simp add: validate_config_def generate_report_def report_step_def)

theorem validate_config_root_path_witness:
  "validate_config root_rejecting ''{}'' ''{}'' =
     Inr [\<lparr>message = '''service_accounts' is a required property'', path = []\<rparr>] \<and>
   generate_report [\<lparr>message = '''service_accounts' is a required property'', path = []\<rparr>] =
     ''Configuration validation failed:\<newline>'' @
     ''  - Path: \<newline>'' @
     ''    Message: 'service_accounts' is a required property\<newline>''"
  using validate_config_root_path
    [of root_rejecting "''{}''" "''{}''"
        "\<lparr>e_message = '''service_accounts' is a required property'', e_path = []\<rparr>"]
  by (simp add: root_rejecting_def)

section \<open>The exit code\<close>




text \<open>
  Claim C8. With an output file given and a run whose validation returns the empty
  list, a failure to write the report is logged as an error, no report is written, and
  the exit code is 0; whatever writing does, the exit code is the same.
\<close>

theorem write_failure_keeps_exit_code:
  assumes "setup_argparse env = Parsed a" and "output_file a = Some f" and "f \<noteq> []"
    and "load_config (fs env) (yaml_safe_load env) (json_load env) (config_file a) = Inr c"
    and "load_schema (fs env) (json_load env) (schema_file a) = Inr s"
    and "validate_config (jsonschema_validate env) c s = Inr []"
    and "write_file env f (generate_report []) = Some e"
  shows "exit_code env = 0 \<and>
         (ERROR, ''Error writing report to file: '' @ e) \<in> set (log (snd (main env))) \<and>
         files (snd (main env)) = [] \<and>
         exit_code (env\<lparr>write_file := other\<rparr>) = exit_code env"
proof (intro conjI)
  show "exit_code env = 0"
    using assms by (simp add: exit_code_parsed [OF assms(1)])
  show "(ERROR, ''Error writing report to file: '' @ e) \<in> set (log (snd (main env)))"
    using assms
    by (simp add: main_def main_body_def emit_report_def logging_info_def logging_error_def start_def)
  show "files (snd (main env)) = []"
    using assms
    by (simp add: main_def main_body_def emit_report_def logging_info_def logging_error_def start_def)
  show "exit_code (env\<lparr>write_file := other\<rparr>) = exit_code env"
    by (rule exit_code_write_file)
qed

theorem write_failure_keeps_exit_code_witness:
  "exit_code read_only_env = 0 \<and>
   (ERROR, ''Error writing report to file: [Errno 30] Read-only file system: report.txt'')
     \<in> set (log (snd (main read_only_env))) \<and>
   files (snd (main read_only_env)) = [] \<and>
   exit_code (read_only_env\<lparr>write_file := writable\<rparr>) = exit_code read_only_env"
  using write_failure_keeps_exit_code
    [of read_only_env report_args "''report.txt''" "''{}''" "''{}''"
        "''[Errno 30] Read-only file system: report.txt''" writable]
  by (simp add: read_only_env_def report_args_def example_env_def example_args_def
      all_readable_def accepting_def read_only_def load_config_def load_schema_def open_read_def
      load_config_body_def load_schema_body_def endswith_def validate_config_def)

end
